theory Spec2Isabelle
  imports Complex_Main "HOL-Library.Multiset"
begin

section \<open>JavaScript numbers\<close>

text \<open>
  A value of the TypeScript type \<open>number\<close>: a finite value, \<open>NaN\<close>, \<open>Infinity\<close> or
  \<open>-Infinity\<close>. Finite values are real numbers and the operations below are exact on
  them: rounding, overflow to an infinity and the sign of zero are not part of them (a
  division of a finite value by zero takes the zero as \<open>+0\<close>). The addition that rounds
  as the addition of doubles does is \<open>dadd\<close>, further down.
\<close>

datatype number = Fin real | NaN | PInf | NInf

fun isNaN :: "number \<Rightarrow> bool" where
  "isNaN NaN = True"
| "isNaN _ = False"

fun isFinite :: "number \<Rightarrow> bool" where
  "isFinite (Fin _) = True"
| "isFinite _ = False"

text \<open>Unary minus.\<close>

fun jneg :: "number \<Rightarrow> number" where
  "jneg (Fin a) = Fin (- a)"
| "jneg NaN = NaN"
| "jneg PInf = NInf"
| "jneg NInf = PInf"

text \<open>The operator \<open>+\<close> on numbers.\<close>

fun jadd :: "number \<Rightarrow> number \<Rightarrow> number" where
  "jadd (Fin a) (Fin b) = Fin (a + b)"
| "jadd NaN _ = NaN"
| "jadd _ NaN = NaN"
| "jadd PInf NInf = NaN"
| "jadd NInf PInf = NaN"
| "jadd PInf _ = PInf"
| "jadd _ PInf = PInf"
| "jadd NInf _ = NInf"
| "jadd _ NInf = NInf"

text \<open>The operator \<open>-\<close> on numbers.\<close>

definition jsub :: "number \<Rightarrow> number \<Rightarrow> number" where
  "jsub a b = jadd a (jneg b)"

text \<open>The sign of a number that is not \<open>NaN\<close>: \<open>-1\<close>, \<open>0\<close> or \<open>1\<close>.\<close>

fun jsign :: "number \<Rightarrow> real" where
  "jsign (Fin a) = sgn a"
| "jsign PInf = 1"
| "jsign NInf = - 1"
| "jsign NaN = 0"

definition inf_of_sign :: "real \<Rightarrow> number" where
  "inf_of_sign s = (if s = 0 then NaN else if 0 < s then PInf else NInf)"

text \<open>The operator \<open>*\<close> on numbers: an infinity times zero is \<open>NaN\<close>.\<close>

fun jmul :: "number \<Rightarrow> number \<Rightarrow> number" where
  "jmul (Fin a) (Fin b) = Fin (a * b)"
| "jmul NaN _ = NaN"
| "jmul _ NaN = NaN"
| "jmul a b = inf_of_sign (jsign a * jsign b)"

text \<open>
  The operator \<open>/\<close> on numbers: a non-zero finite value over zero is an infinity,
  zero over zero and an infinity over an infinity are \<open>NaN\<close>, a finite value over an
  infinity is zero.
\<close>

fun jdiv :: "number \<Rightarrow> number \<Rightarrow> number" where
  "jdiv (Fin a) (Fin b) = (if b = 0 then inf_of_sign (sgn a) else Fin (a / b))"
| "jdiv NaN _ = NaN"
| "jdiv _ NaN = NaN"
| "jdiv (Fin a) _ = Fin 0"
| "jdiv PInf (Fin b) = (if 0 \<le> b then PInf else NInf)"
| "jdiv NInf (Fin b) = (if 0 \<le> b then NInf else PInf)"
| "jdiv _ _ = NaN"

text \<open>The comparisons \<open><\<close>, \<open>>\<close>, \<open><=\<close>, \<open>>=\<close>: false as soon as one side is \<open>NaN\<close>.\<close>

fun jlt :: "number \<Rightarrow> number \<Rightarrow> bool" where
  "jlt (Fin a) (Fin b) = (a < b)"
| "jlt NaN _ = False"
| "jlt _ NaN = False"
| "jlt NInf NInf = False"
| "jlt NInf _ = True"
| "jlt PInf _ = False"
| "jlt _ PInf = True"
| "jlt _ NInf = False"

definition jgt :: "number \<Rightarrow> number \<Rightarrow> bool" where
  "jgt a b = jlt b a"

definition jle :: "number \<Rightarrow> number \<Rightarrow> bool" where
  "jle a b = (\<not> isNaN a \<and> \<not> isNaN b \<and> \<not> jlt b a)"

definition jge :: "number \<Rightarrow> number \<Rightarrow> bool" where
  "jge a b = jle b a"

text \<open>\<open>Math.max\<close> and \<open>Math.min\<close> of two arguments: \<open>NaN\<close> if one of them is.\<close>

definition Math_max :: "number \<Rightarrow> number \<Rightarrow> number" where
  "Math_max a b = (if isNaN a \<or> isNaN b then NaN else if jlt a b then b else a)"

definition Math_min :: "number \<Rightarrow> number \<Rightarrow> number" where
  "Math_min a b = (if isNaN a \<or> isNaN b then NaN else if jlt b a then b else a)"

fun Math_abs :: "number \<Rightarrow> number" where
  "Math_abs (Fin a) = Fin \<bar>a\<bar>"
| "Math_abs NaN = NaN"
| "Math_abs _ = PInf"

fun Math_sqrt :: "number \<Rightarrow> number" where
  "Math_sqrt (Fin a) = (if a < 0 then NaN else Fin (sqrt a))"
| "Math_sqrt PInf = PInf"
| "Math_sqrt _ = NaN"

text \<open>\<open>Math.pow(x, 2)\<close>.\<close>

fun Math_pow2 :: "number \<Rightarrow> number" where
  "Math_pow2 (Fin a) = Fin (a\<^sup>2)"
| "Math_pow2 NaN = NaN"
| "Math_pow2 _ = PInf"

text \<open>\<open>a || b\<close> on numbers: \<open>b\<close> when \<open>a\<close> is zero or \<open>NaN\<close>.\<close>

definition orElse :: "number \<Rightarrow> number \<Rightarrow> number" where
  "orElse a b = (if a = Fin 0 \<or> a = NaN then b else a)"

text \<open>An integer, such as a length or a millisecond timestamp, as a number.\<close>

definition num :: "int \<Rightarrow> number" where
  "num i = Fin (real_of_int i)"

text \<open>\<open>xs.reduce((sum, x) => sum + f(x), 0)\<close>.\<close>

definition reduce_sum :: "('a \<Rightarrow> number) \<Rightarrow> 'a list \<Rightarrow> number" where
  "reduce_sum f xs = fold (\<lambda>x sum. jadd sum (f x)) xs (Fin 0)"

subsection \<open>Addition of doubles\<close>










section \<open>The rate limiter (lib/binance-api.ts)\<close>






section \<open>Daily records (types/market.ts)\<close>

record MarketData =
  date :: string
  open_price :: number
  high :: number
  low :: number
  close_price :: number
  volume :: number
  volatility :: number

section \<open>The volatility enhancer (hooks/use-market-data.ts)\<close>

text \<open>
  The loop of \<open>calculateVolatility\<close> over \<open>validPrices\<close>: the return of each price on
  the one before it, pushed when it is neither \<open>NaN\<close> nor infinite.
\<close>

fun returns_loop :: "number list \<Rightarrow> number list" where
  "returns_loop (previous # current # rest) =
     (let returnValue = jdiv (jsub current previous) previous
      in (if \<not> isNaN returnValue \<and> isFinite returnValue then [returnValue] else [])
         @ returns_loop (current # rest))"
| "returns_loop _ = []"

definition calculateVolatility :: "number list \<Rightarrow> number" where
  "calculateVolatility prices =
    (if length prices < 2 then Fin 0
     else
       let validPrices = filter (\<lambda>price. \<not> isNaN price \<and> jgt price (Fin 0)) prices
       in if length validPrices < 2 then Fin 0
          else
            let returns = returns_loop validPrices
            in if length returns = 0 then Fin 0
               else
                 let mean = jdiv (reduce_sum (\<lambda>ret. ret) returns) (num (int (length returns)));
                     variance = jdiv (reduce_sum (\<lambda>ret. Math_pow2 (jsub ret mean)) returns)
                                  (num (int (length returns)));
                     volatility = jmul (Math_sqrt variance) (Fin 100)
                 in if isNaN volatility \<or> \<not> isFinite volatility then Fin 0 else volatility)"

text \<open>\<open>xs.slice(start, end)\<close> for \<open>0 \<le> start\<close> and \<open>0 \<le> end\<close>.\<close>

definition slice :: "nat \<Rightarrow> nat \<Rightarrow> 'a list \<Rightarrow> 'a list" where
  "slice start end xs = take (end - start) (drop start xs)"

text \<open>
  The callback of \<open>data.map\<close> in \<open>enhanceVolatilityData\<close>. Its body is arithmetic on
  numbers and list operations, none of which throws, so the \<open>catch\<close> branch is never
  taken and is left out. Every element of a \<open>MarketData[]\<close> is a record with a \<open>close\<close>
  of type \<open>number\<close>, which leaves \<open>!isNaN(d.close) && d.close > 0\<close> of the window filter.
\<close>

definition enhance_item :: "MarketData list \<Rightarrow> MarketData \<Rightarrow> nat \<Rightarrow> MarketData" where
  "enhance_item data item index =
    (let windowSize = min 7 (int index + 1);
         windowStart = max 0 (int index - windowSize + 1);
         window = slice (nat windowStart) (index + 1) data;
         validWindow = filter (\<lambda>d. \<not> isNaN (close_price d) \<and> jgt (close_price d) (Fin 0)) window
     in if length validWindow < 2 then
          item\<lparr>volatility := Math_max (Fin 0) (orElse (volatility item) (Fin 0))\<rparr>
        else
          let closePrices = map close_price validWindow;
              rollingVolatility = calculateVolatility closePrices;
              dailyWeight = Fin (6 / 10);
              rollingWeight = Fin (4 / 10);
              dailyVol = Math_max (Fin 0) (orElse (volatility item) (Fin 0));
              rollingVol = Math_max (Fin 0) (orElse rollingVolatility (Fin 0));
              enhancedVolatility = jadd (jmul dailyVol dailyWeight) (jmul rollingVol rollingWeight)
          in item\<lparr>volatility := enhancedVolatility\<rparr>)"

definition enhanceVolatilityData :: "MarketData list \<Rightarrow> MarketData list" where
  "enhanceVolatilityData data =
    (if length data < 2 then data
     else map (\<lambda>(item, index). enhance_item data item index) (zip data [0 ..< length data]))"

subsection \<open>The blended volatility in words\<close>










section \<open>The kline fetcher (hooks/use-market-data.ts)\<close>

text \<open>
  \<open>new Date(2017, 6, 1).getTime()\<close>: midnight of 1 July 2017 in the time zone of the
  host, \<open>tz\<close> minutes east of UTC. Instants are integers, milliseconds since the epoch.
\<close>

definition BINANCE_LAUNCH_DATE :: "int \<Rightarrow> int" where
  "BINANCE_LAUNCH_DATE tz = 1498867200000 - tz * 60000"

text \<open>
  An element of the response body. A row that is an array is given by its elements, each
  one as the number the fetcher converts it to: element 0 by \<open>Number\<close>, elements 1 to 5 by
  \<open>Number.parseFloat\<close> (the other elements are not read).
\<close>

datatype kline = NotArray | Kline "number list"

datatype body = NotAList | Klines "kline list"

text \<open>
  What \<open>fetch\<close> does with a request: it rejects, or answers with a status that is not
  ok (status, status text and the \<open>msg\<close> of the body when the body is JSON and has one),
  or answers ok with a body that is not JSON, or with a JSON body.
\<close>

datatype response
  = Rejected string
  | NotOk string string "string option"
  | BadJson string
  | Ok body

text \<open>The request: the query parameters of the URL.\<close>

record request =
  req_symbol :: string
  req_interval :: string
  req_startTime :: int
  req_endTime :: int
  req_limit :: nat

datatype error = Error string

text \<open>
  The host of the program: its time zone, the network, and the functions of the
  platform and of date-fns the program calls on instants (\<open>new Date(string)\<close> gives
  \<open>None\<close> for an invalid date).
\<close>

record host =
  tz :: int
  fetch :: "request \<Rightarrow> response"
  format_date :: "int \<Rightarrow> string"
  format_month :: "int \<Rightarrow> string"
  Date_parse :: "string \<Rightarrow> int option"
  startOfMonth :: "int \<Rightarrow> int"
  endOfMonth :: "int \<Rightarrow> int"
  subDays :: "int \<Rightarrow> int \<Rightarrow> int"
  differenceInDays :: "int \<Rightarrow> int \<Rightarrow> int"

text \<open>
  \<open>new Date(timestamp).getTime()\<close> for a number: \<open>None\<close> (an invalid date) when the
  number is not finite or beyond 8.64e15 in magnitude, else the number truncated to an
  integer.
\<close>

fun Date_new :: "number \<Rightarrow> int option" where
  "Date_new (Fin t) =
     (if \<bar>t\<bar> > 8640000000000000 then None
      else Some (if 0 \<le> t then \<lfloor>t\<rfloor> else \<lceil>t\<rceil>))"
| "Date_new _ = None"

text \<open>The callback of \<open>klineData.map\<close>: \<open>None\<close> is the \<open>null\<close> of a discarded row.\<close>

definition process_kline :: "host \<Rightarrow> kline \<Rightarrow> MarketData option" where
  "process_kline h kline =
    (case kline of
       NotArray \<Rightarrow> None
     | Kline cells \<Rightarrow>
         if length cells < 11 then None
         else
           let openTime = cells ! 0;
               openPrice = cells ! 1;
               highPrice = cells ! 2;
               lowPrice = cells ! 3;
               closePrice = cells ! 4;
               volumeValue = cells ! 5
           in if isNaN openPrice \<or> isNaN highPrice \<or> isNaN lowPrice \<or> isNaN closePrice
                 \<or> isNaN volumeValue then None
              else if jle openPrice (Fin 0) \<or> jle highPrice (Fin 0) \<or> jle lowPrice (Fin 0)
                 \<or> jle closePrice (Fin 0) then None
              else if jlt highPrice (Math_max openPrice closePrice)
                 \<or> jgt lowPrice (Math_min openPrice closePrice) then None
              else
                let timestamp = openTime
                in if isNaN timestamp \<or> jle timestamp (Fin 0) then None
                   else
                     let dailyVolatility =
                           (if jgt openPrice (Fin 0)
                            then jmul (jdiv (jsub highPrice lowPrice) openPrice) (Fin 100)
                            else Fin 0)
                     in case Date_new timestamp of
                          None \<Rightarrow> None
                        | Some d \<Rightarrow>
                            if d < BINANCE_LAUNCH_DATE (tz h) then None
                            else Some \<lparr>date = format_date h d,
                                       open_price = openPrice,
                                       high = highPrice,
                                       low = lowPrice,
                                       close_price = closePrice,
                                       volume = volumeValue,
                                       volatility = Math_max (Fin 0) dailyVolatility\<rparr>)"

text \<open>
  \<open>fetchBinanceKlineData\<close>. The result is what the promise settles with (\<open>Inl\<close> the
  error thrown) and the requests that were issued. The two times are instants, integers
  that are never \<open>NaN\<close>: \<open>!startTime\<close> holds of \<open>0\<close> only and \<open>Math.floor\<close> leaves them
  as they are. The \<open>catch\<close> block logs and throws the error again.
\<close>

definition fetchBinanceKlineData ::
    "host \<Rightarrow> string \<Rightarrow> int \<Rightarrow> int \<Rightarrow> (error + MarketData list) \<times> request list" where
  "fetchBinanceKlineData h symbol startTime endTime =
    (if startTime = 0 \<or> endTime = 0 \<or> startTime \<ge> endTime then
       (Inl (Error ''Invalid date range provided''), [])
     else if endTime < BINANCE_LAUNCH_DATE (tz h) then (Inr [], [])
     else
       let adjustedStartTime = max startTime (BINANCE_LAUNCH_DATE (tz h));
           validStartTime = adjustedStartTime;
           validEndTime = endTime;
           url = \<lparr>req_symbol = symbol, req_interval = ''1d'', req_startTime = validStartTime,
                  req_endTime = validEndTime, req_limit = 1000\<rparr>
       in (case fetch h url of
             Rejected e \<Rightarrow> Inl (Error e)
           | NotOk status statusText msg \<Rightarrow>
               Inl (Error (case msg of
                             Some m \<Rightarrow> ''Binance API: '' @ m
                           | None \<Rightarrow> ''Binance API error: '' @ status @ '' '' @ statusText))
           | BadJson e \<Rightarrow> Inl (Error e)
           | Ok NotAList \<Rightarrow> Inl (Error ''Invalid response format from Binance API'')
           | Ok (Klines klineData) \<Rightarrow>
               if length klineData = 0 then Inr []
               else Inr (map the (filter (\<lambda>item. item \<noteq> None) (map (process_kline h) klineData))),
           [url]))"

text \<open>
  A host for evaluating the program on concrete inputs: UTC, a network that gives the
  same response to every request, days of 86400000 milliseconds.
\<close>

definition test_host :: "response \<Rightarrow> host" where
  "test_host r =
    \<lparr>tz = 0,
     fetch = (\<lambda>_. r),
     format_date = (\<lambda>_. ''yyyy-MM-dd''),
     format_month = (\<lambda>_. ''MMMM yyyy''),
     Date_parse = (\<lambda>_. None),
     startOfMonth = (\<lambda>d. d),
     endOfMonth = (\<lambda>d. d + 30 * 86400000),
     subDays = (\<lambda>d n. d - n * 86400000),
     differenceInDays = (\<lambda>a b. if b \<le> a then (a - b) div 86400000 else - ((b - a) div 86400000))\<rparr>"

section \<open>The pattern analyzer (components/pattern-analyzer.tsx)\<close>

datatype PatternType = Weekly | Monthly | Volatility | Volume | Anomaly

datatype Severity = Low | Medium | High

record Pattern =
  pattern_id :: string
  pattern_type :: PatternType
  name :: string
  description :: string
  confidence :: number
  occurrences :: nat
  avgImpact :: number
  severity :: "Severity option"

text \<open>
  The loop of the volatility clustering over \<open>i = 1, \<dots>, allData.length - 1\<close>, with
  the two variables \<open>clusterCount\<close> and \<open>inCluster\<close> it updates.
\<close>

function cluster_loop :: "MarketData list \<Rightarrow> nat \<Rightarrow> nat \<times> bool \<Rightarrow> nat \<times> bool" where
  "cluster_loop allData i (clusterCount, inCluster) =
    (if i < length allData then
       (let current = volatility (allData ! i);
            previous = volatility (allData ! (i - 1))
        in if jgt current (Fin 2) \<and> jgt previous (Fin 2) then
             (if \<not> inCluster then cluster_loop allData (i + 1) (clusterCount + 1, True)
              else cluster_loop allData (i + 1) (clusterCount, inCluster))
           else cluster_loop allData (i + 1) (clusterCount, False))
     else (clusterCount, inCluster))"
  by pat_completeness auto
termination
  by (relation "measure (\<lambda>(allData, i, s). length allData - i)") auto

declare cluster_loop.simps [simp del]

text \<open>The patterns the volatility clustering block pushes: none or one.\<close>

definition volatility_clustering :: "MarketData list \<Rightarrow> Pattern list" where
  "volatility_clustering allData =
    (let clusterCount = fst (cluster_loop allData 1 (0, False))
     in if clusterCount \<ge> 3 then
          [\<lparr>pattern_id = ''volatility-clustering'',
            pattern_type = Volatility,
            name = ''Volatility Clustering'',
            description = ''High volatility periods tend to be followed by more high volatility'',
            confidence = Math_min (Fin 85)
              (jmul (jdiv (num (int clusterCount)) (jdiv (num (int (length allData))) (Fin 10))) (Fin 100)),
            occurrences = clusterCount,
            avgImpact =
              jdiv (reduce_sum volatility (filter (\<lambda>item. jgt (volatility item) (Fin 2)) allData))
                   (num (int (length (filter (\<lambda>item. jgt (volatility item) (Fin 2)) allData)))),
            severity = Some Medium\<rparr>]
        else [])"

text \<open>
  The weekly block. \<open>weeklyData\<close> groups the records under the key
  \<open>getDay(new Date(item.date))\<close>, an integer or \<open>NaN\<close> (here \<open>None\<close>);
  \<open>Object.entries\<close> lists the integer keys in ascending order and the key \<open>NaN\<close> last.
\<close>

definition weeklyData :: "(string \<Rightarrow> nat option) \<Rightarrow> MarketData list \<Rightarrow> (nat option \<times> MarketData list) list" where
  "weeklyData getDay allData =
    (let days = map (\<lambda>item. getDay (date item)) allData;
         keys = map Some (sort (remdups (List.map_filter (\<lambda>d. d) days)))
                @ (if None \<in> set days then [None] else [])
     in map (\<lambda>k. (k, filter (\<lambda>item. getDay (date item) = k) allData)) keys)"

record DayVolatility =
  day :: "nat option"
  avgVolatility :: number
  count :: nat

definition weeklyVolatility :: "(string \<Rightarrow> nat option) \<Rightarrow> MarketData list \<Rightarrow> DayVolatility list" where
  "weeklyVolatility getDay allData =
    map (\<lambda>(d, dayData).
          \<lparr>day = d,
           avgVolatility = jdiv (reduce_sum volatility dayData) (num (int (length dayData))),
           count = length dayData\<rparr>)
        (weeklyData getDay allData)"

text \<open>\<open>dayNames[day]\<close> in a template literal.\<close>

definition dayName :: "nat option \<Rightarrow> string" where
  "dayName d =
    (case d of
       Some k \<Rightarrow>
         if k < 7 then [''Sunday'', ''Monday'', ''Tuesday'', ''Wednesday'', ''Thursday'', ''Friday'',
                        ''Saturday''] ! k
         else ''undefined''
     | None \<Rightarrow> ''undefined'')"

text \<open>\<open>reduce\<close> without an initial value throws a \<open>TypeError\<close> on an empty array.\<close>

definition weekly_patterns :: "(string \<Rightarrow> nat option) \<Rightarrow> MarketData list \<Rightarrow> error + Pattern list" where
  "weekly_patterns getDay allData =
    (case weeklyVolatility getDay allData of
       [] \<Rightarrow> Inl (Error ''Reduce of empty array with no initial value'')
     | first # others \<Rightarrow>
         let mostVolatileDay =
               fold (\<lambda>current max. if jgt (avgVolatility current) (avgVolatility max) then current else max)
                    others first
         in Inr (if jgt (avgVolatility mostVolatileDay) (Fin 2) \<and> count mostVolatileDay \<ge> 4 then
                   [\<lparr>pattern_id = ''weekly-volatility'',
                     pattern_type = Weekly,
                     name = dayName (day mostVolatileDay) @ '' Volatility'',
                     description = ''Higher volatility typically occurs on ''
                                   @ dayName (day mostVolatileDay) @ ''s'',
                     confidence = Math_min (Fin 95)
                       (jmul (jmul (jdiv (num (int (count mostVolatileDay))) (num (int (length allData))))
                                   (Fin 100)) (Fin 7)),
                     occurrences = count mostVolatileDay,
                     avgImpact = avgVolatility mostVolatileDay,
                     severity = Some (if jgt (avgVolatility mostVolatileDay) (Fin 3) then High else Medium)\<rparr>]
                 else []))"

text \<open>
  The monthly block. The key of a record is its period of the month, from
  \<open>getDate(new Date(item.date))\<close> (\<open>None\<close> for \<open>NaN\<close>, which no \<open><=\<close> holds of);
  \<open>Object.entries\<close> lists the keys in the order of their first record.
\<close>

definition period_of :: "(string \<Rightarrow> nat option) \<Rightarrow> MarketData \<Rightarrow> string" where
  "period_of getDate item =
    (case getDate (date item) of
       Some dayOfMonth \<Rightarrow> if dayOfMonth \<le> 10 then ''early'' else if dayOfMonth \<le> 20 then ''mid'' else ''late''
     | None \<Rightarrow> ''late'')"

definition monthlyData :: "(string \<Rightarrow> nat option) \<Rightarrow> MarketData list \<Rightarrow> (string \<times> MarketData list) list" where
  "monthlyData getDate allData =
    map (\<lambda>k. (k, filter (\<lambda>item. period_of getDate item = k) allData))
        (rev (remdups (rev (map (period_of getDate) allData))))"

text \<open>\<open>period.charAt(0).toUpperCase() + period.slice(1)\<close> on the three keys.\<close>

definition capitalized :: "string \<Rightarrow> string" where
  "capitalized period =
    (if period = ''early'' then ''Early'' else if period = ''mid'' then ''Mid'' else ''Late'')"

definition intraday_return :: "MarketData \<Rightarrow> number" where
  "intraday_return item = jmul (jdiv (jsub (close_price item) (open_price item)) (open_price item)) (Fin 100)"

definition monthly_pattern :: "MarketData list \<Rightarrow> string \<times> MarketData list \<Rightarrow> Pattern list" where
  "monthly_pattern allData entry =
    (let period = fst entry;
         periodData = snd entry;
         avgReturn =
           (if length periodData > 0
            then jdiv (reduce_sum intraday_return periodData) (num (int (length periodData)))
            else Fin 0)
     in if jgt (Math_abs avgReturn) (Fin 1) \<and> length periodData \<ge> 5 then
          [\<lparr>pattern_id = ''monthly-'' @ period,
            pattern_type = Monthly,
            name = capitalized period @ ''-Month ''
                   @ (if jgt avgReturn (Fin 0) then ''Rally'' else ''Decline''),
            description = capitalized period @ '' month periods show ''
                   @ (if jgt avgReturn (Fin 0) then ''positive'' else ''negative'')
                   @ '' performance tendency'',
            confidence = Math_min (Fin 90)
              (jmul (jmul (jdiv (num (int (length periodData))) (num (int (length allData))))
                          (Fin 100)) (Fin 3)),
            occurrences = length periodData,
            avgImpact = Math_abs avgReturn,
            severity = Some (if jgt (Math_abs avgReturn) (Fin 3) then High
                             else if jgt (Math_abs avgReturn) (Fin (3 / 2)) then Medium else Low)\<rparr>]
        else [])"

definition monthly_patterns :: "(string \<Rightarrow> nat option) \<Rightarrow> MarketData list \<Rightarrow> Pattern list" where
  "monthly_patterns getDate allData =
    concat (map (monthly_pattern allData) (monthlyData getDate allData))"

definition volume_spikes :: "MarketData list \<Rightarrow> Pattern list" where
  "volume_spikes allData =
    (let avgVolume = jdiv (reduce_sum volume allData) (num (int (length allData)));
         volumeSpikes = filter (\<lambda>item. jgt (volume item) (jmul avgVolume (Fin 2))) allData
     in if length volumeSpikes \<ge> 3 then
          [\<lparr>pattern_id = ''volume-spikes'',
            pattern_type = Volume,
            name = ''Volume Spikes'',
            description = ''Periodic volume spikes indicate increased market interest'',
            confidence = Math_min (Fin 80)
              (jmul (jmul (jdiv (num (int (length volumeSpikes))) (num (int (length allData))))
                          (Fin 100)) (Fin 10)),
            occurrences = length volumeSpikes,
            avgImpact = jdiv (jdiv (reduce_sum volume volumeSpikes) (num (int (length volumeSpikes))))
                             avgVolume,
            severity = Some Low\<rparr>]
        else [])"

definition price_anomalies :: "MarketData list \<Rightarrow> Pattern list" where
  "price_anomalies allData =
    (let priceChanges = map intraday_return allData;
         avgChange = jdiv (reduce_sum Math_abs priceChanges) (num (int (length priceChanges)));
         anomalies = filter (\<lambda>item. jgt (Math_abs (intraday_return item)) (jmul avgChange (Fin 3))) allData
     in if length anomalies \<ge> 2 then
          [\<lparr>pattern_id = ''price-anomalies'',
            pattern_type = Anomaly,
            name = ''Price Anomalies'',
            description =
              ''Unusual price movements detected that deviate significantly from normal patterns'',
            confidence = Math_min (Fin 75)
              (jmul (jmul (jdiv (num (int (length anomalies))) (num (int (length allData))))
                          (Fin 100)) (Fin 20)),
            occurrences = length anomalies,
            avgImpact = jdiv (reduce_sum (\<lambda>item. Math_abs (intraday_return item)) anomalies)
                             (num (int (length anomalies))),
            severity = Some High\<rparr>]
        else [])"

text \<open>
  \<open>detectedPatterns.sort((a, b) => b.confidence - a.confidence)\<close>: the sort is stable,
  and \<open>a\<close> goes behind \<open>b\<close> when the comparator is positive.
\<close>

fun insert_pattern :: "Pattern \<Rightarrow> Pattern list \<Rightarrow> Pattern list" where
  "insert_pattern a [] = [a]"
| "insert_pattern a (b # bs) =
     (if jgt (jsub (confidence b) (confidence a)) (Fin 0) then b # insert_pattern a bs
      else a # b # bs)"

definition sort_patterns :: "Pattern list \<Rightarrow> Pattern list" where
  "sort_patterns ps = foldr insert_pattern ps []"

text \<open>
  The \<open>useMemo\<close> body of \<open>PatternAnalyzer\<close>: the patterns of \<open>historicalData\<close> followed
  by \<open>data\<close>, or the error thrown.
\<close>

definition patterns ::
    "(string \<Rightarrow> nat option) \<Rightarrow> (string \<Rightarrow> nat option) \<Rightarrow> MarketData list \<Rightarrow> MarketData list
      \<Rightarrow> error + Pattern list" where
  "patterns getDay getDate historicalData data =
    (let allData = historicalData @ data
     in if length allData < 30 then Inr []
        else
          case weekly_patterns getDay allData of
            Inl e \<Rightarrow> Inl e
          | Inr weekly \<Rightarrow>
              Inr (sort_patterns
                    (weekly @ monthly_patterns getDate allData @ volatility_clustering allData
                     @ volume_spikes allData @ price_anomalies allData)))"

subsection \<open>The clusters in the words of the specification\<close>

text \<open>
  Record \<open>i\<close> is clustered when its volatility is above 2 and it comes right after a
  record whose volatility is above 2. A cluster is a maximal run of clustered records; it
  starts at a clustered record that does not follow a clustered record.
\<close>

definition clustered :: "MarketData list \<Rightarrow> nat \<Rightarrow> bool" where
  "clustered allData i =
    (1 \<le> i \<and> i < length allData \<and> jgt (volatility (allData ! i)) (Fin 2)
     \<and> jgt (volatility (allData ! (i - 1))) (Fin 2))"

definition cluster_starts :: "MarketData list \<Rightarrow> nat list" where
  "cluster_starts allData =
    filter (\<lambda>i. clustered allData i \<and> \<not> clustered allData (i - 1)) [1 ..< length allData]"

definition high_volatility :: "MarketData list \<Rightarrow> MarketData list" where
  "high_volatility allData = filter (\<lambda>item. jgt (volatility item) (Fin 2)) allData"

text \<open>
  Thirty records for evaluating the analyzer: three runs of two days with volatility 3,
  each followed by a day with volatility 1, then twenty-one days with volatility 1.
\<close>

definition day_with_volatility :: "real \<Rightarrow> MarketData" where
  "day_with_volatility v =
    \<lparr>date = ''2020-09-01'', open_price = Fin 100, high = Fin 102, low = Fin 98,
     close_price = Fin 100, volume = Fin 5, volatility = Fin v\<rparr>"

definition W30 :: "MarketData list" where
  "W30 = map day_with_volatility [3, 3, 1, 3, 3, 1, 3, 3, 1] @ replicate 21 (day_with_volatility 1)"

section \<open>The alert system (components/alert-system.tsx)\<close>

datatype AlertType = AVolatility | APerformance | AVolume

datatype Condition = Above | Below

record Alert =
  alert_id :: string
  alert_type :: AlertType
  condition :: Condition
  threshold :: number
  enabled :: bool
  triggered :: bool
  lastTriggered :: "int option"

text \<open>A template literal: its texts and the numbers put between them.\<close>

datatype template_part = Str string | Num number

record Notification =
  title :: string
  body :: "template_part list"
  icon :: string

definition type_text :: "AlertType \<Rightarrow> string" where
  "type_text t = (case t of AVolatility \<Rightarrow> ''volatility'' | APerformance \<Rightarrow> ''performance''
                  | AVolume \<Rightarrow> ''volume'')"

definition condition_text :: "Condition \<Rightarrow> string" where
  "condition_text c = (case c of Above \<Rightarrow> ''above'' | Below \<Rightarrow> ''below'')"

text \<open>
  The callback of \<open>prevAlerts.map\<close> in the effect: the alert it returns and the
  notification it creates, if any. \<open>granted\<close> tells whether the page has notifications
  and the permission for them, \<open>now\<close> is the time of \<open>new Date()\<close>.
\<close>

definition check_alert ::
    "bool \<Rightarrow> int \<Rightarrow> string \<Rightarrow> MarketData \<Rightarrow> Alert \<Rightarrow> Alert \<times> Notification option" where
  "check_alert granted now symbol latestData alert =
    (let performance =
           jmul (jdiv (jsub (close_price latestData) (open_price latestData)) (open_price latestData))
                (Fin 100)
     in if \<not> enabled alert then (alert, None)
        else
          let currentValue =
                (case alert_type alert of
                   AVolatility \<Rightarrow> volatility latestData
                 | APerformance \<Rightarrow> Math_abs performance
                 | AVolume \<Rightarrow> jdiv (volume latestData) (Fin 1000000));
              shouldTrigger =
                ((condition alert = Above \<and> jgt currentValue (threshold alert))
                 \<or> (condition alert = Below \<and> jlt currentValue (threshold alert)))
          in if shouldTrigger \<and> \<not> triggered alert then
               (alert\<lparr>triggered := True, lastTriggered := Some now\<rparr>,
                if granted then
                  Some \<lparr>title = ''Market Alert - '' @ symbol,
                        body = [Str (type_text (alert_type alert)), Str '' is '',
                                Str (condition_text (condition alert)), Str '' '',
                                Num (threshold alert),
                                Str (if alert_type alert = AVolume then ''M'' else ''%'')],
                        icon = ''/favicon.ico''\<rparr>
                else None)
             else (alert, None))"

text \<open>
  The effect on \<open>[data, symbol]\<close>: for every alert, in order, the alert after the
  evaluation and the notification created for it.
\<close>

definition alerts_effect ::
    "bool \<Rightarrow> int \<Rightarrow> string \<Rightarrow> MarketData list \<Rightarrow> Alert list \<Rightarrow> (Alert \<times> Notification option) list" where
  "alerts_effect granted now symbol data prevAlerts =
    (if length data = 0 then map (\<lambda>alert. (alert, None)) prevAlerts
     else
       let latestData = last data
       in map (check_alert granted now symbol latestData) prevAlerts)"

definition toggleAlert :: "string \<Rightarrow> Alert list \<Rightarrow> Alert list" where
  "toggleAlert i alerts =
    map (\<lambda>alert. if alert_id alert = i then alert\<lparr>enabled := \<not> enabled alert, triggered := False\<rparr>
                  else alert) alerts"

definition resetAlert :: "string \<Rightarrow> Alert list \<Rightarrow> Alert list" where
  "resetAlert i alerts =
    map (\<lambda>alert. if alert_id alert = i then alert\<lparr>triggered := False\<rparr> else alert) alerts"

text \<open>
  A run of evaluations: each one is given by the permission, the time, the symbol and the
  data of that moment. The result is the alerts after the last evaluation and, for every
  evaluation in order, the notifications it created, one place per alert.
\<close>

fun evaluations ::
    "(bool \<times> int \<times> string \<times> MarketData list) list \<Rightarrow> Alert list
      \<Rightarrow> Alert list \<times> Notification option list list" where
  "evaluations [] alerts = (alerts, [])"
| "evaluations ((granted, now, symbol, data) # rest) alerts =
     (let result = alerts_effect granted now symbol data alerts;
          (final, notifications) = evaluations rest (map fst result)
      in (final, map snd result # notifications))"

text \<open>The metric of an alert on the latest record, and its condition on that metric.\<close>

definition alert_metric :: "MarketData \<Rightarrow> Alert \<Rightarrow> number" where
  "alert_metric latest alert =
    (case alert_type alert of
       AVolatility \<Rightarrow> volatility latest
     | APerformance \<Rightarrow>
         Math_abs (jmul (jdiv (jsub (close_price latest) (open_price latest)) (open_price latest)) (Fin 100))
     | AVolume \<Rightarrow> jdiv (volume latest) (Fin 1000000))"

definition condition_holds :: "MarketData \<Rightarrow> Alert \<Rightarrow> bool" where
  "condition_holds latest alert =
    (case condition alert of
       Above \<Rightarrow> jgt (alert_metric latest alert) (threshold alert)
     | Below \<Rightarrow> jlt (alert_metric latest alert) (threshold alert))"

text \<open>The number of evaluations of a run that created a notification for the alert at place \<open>i\<close>.\<close>

definition notified :: "nat \<Rightarrow> Notification option list list \<Rightarrow> nat" where
  "notified i notifications = length (filter (\<lambda>ns. ns ! i \<noteq> None) notifications)"

text \<open>An alert and a record for evaluating the effect.\<close>

definition alert1 :: Alert where
  "alert1 = \<lparr>alert_id = ''1600000000000'', alert_type = AVolatility, condition = Above,
             threshold = Fin 2, enabled = True, triggered = False, lastTriggered = None\<rparr>"

section \<open>The weekly view of the calendar (components/calendar.tsx)\<close>












section \<open>The symbol check of lib/binance-api.ts\<close>

definition upper_case_letter :: "char \<Rightarrow> bool" where
  "upper_case_letter c = (c \<in> set ''ABCDEFGHIJKLMNOPQRSTUVWXYZ'')"

text \<open>
  \<open>/^[A-Z]{2,10}USDT?$/.test(symbol)\<close>: the symbol is two to ten capital letters
  followed by \<open>USD\<close> or by \<open>USDT\<close>.
\<close>

definition validateTradingSymbol :: "string \<Rightarrow> bool" where
  "validateTradingSymbol symbol =
    (let n = length symbol
     in (5 \<le> n \<and> n \<le> 13 \<and> drop (n - 3) symbol = ''USD''
           \<and> list_all upper_case_letter (take (n - 3) symbol))
        \<or> (6 \<le> n \<and> n \<le> 14 \<and> drop (n - 4) symbol = ''USDT''
           \<and> list_all upper_case_letter (take (n - 4) symbol)))"

section \<open>The hook useMarketData (hooks/use-market-data.ts)\<close>

text \<open>What \<open>fetchData\<close> leaves in the state of the hook.\<close>

record hook_state =
  data_out :: "MarketData list"
  error_out :: "string option"
  loading_out :: bool

definition failed :: "string \<Rightarrow> hook_state" where
  "failed msg = \<lparr>data_out = [], error_out = Some msg, loading_out = False\<rparr>"

text \<open>
  \<open>fetchData\<close> for a symbol and the instant of the month shown: the state it leaves and
  the requests it issued. Every error thrown in its \<open>try\<close> block is an \<open>Error\<close> and ends
  as its message in the state. The instants of valid dates are integers, so the
  \<open>isNaN\<close> check of the two times never throws.
\<close>

definition fetchData :: "host \<Rightarrow> string \<Rightarrow> int \<Rightarrow> hook_state \<times> request list" where
  "fetchData h symbol month =
    (if month < BINANCE_LAUNCH_DATE (tz h) then
       (failed (''No data available before '' @ format_month h (BINANCE_LAUNCH_DATE (tz h))
                @ '' (Binance launch date)''), [])
     else
       let monthStart = startOfMonth h month;
           monthEnd = endOfMonth h month;
           extendedStart = subDays h monthStart 30;
           actualStartDate = (if extendedStart > BINANCE_LAUNCH_DATE (tz h) then extendedStart
                              else BINANCE_LAUNCH_DATE (tz h));
           startTime = actualStartDate;
           endTime = monthEnd
       in if startTime \<ge> endTime then (failed ''Start date must be before end date'', [])
          else if symbol = [] \<or> length symbol < 6 then (failed ''Invalid trading symbol format'', [])
          else
            let daysDifference = differenceInDays h monthEnd actualStartDate
            in if daysDifference > 1000 then
                 (failed ''Date range too large. Please select a more recent period.'', [])
               else
                 case fetchBinanceKlineData h symbol startTime endTime of
                   (Inl (Error msg), issued) \<Rightarrow> (failed msg, issued)
                 | (Inr klineData, issued) \<Rightarrow>
                     if length klineData = 0 then
                       (failed (''No trading data available for '' @ symbol @ '' in ''
                                @ format_month h month
                                @ ''. This symbol may not have existed or been trading during this time period.''),
                        issued)
                     else
                       let enhancedData = enhanceVolatilityData klineData;
                           filteredData =
                             filter (\<lambda>item. case Date_parse h (date item) of
                                              None \<Rightarrow> False
                                            | Some itemDate \<Rightarrow> itemDate \<ge> monthStart \<and> itemDate \<le> monthEnd)
                                    enhancedData
                       in if length filteredData = 0 then
                            (failed (''No data available for '' @ symbol @ '' in ''
                                     @ format_month h month
                                     @ ''. The symbol may not have been trading during this period.''),
                             issued)
                          else (\<lparr>data_out = filteredData, error_out = None, loading_out = False\<rparr>,
                                issued))"

section \<open>Properties of the rate limiter\<close>





section \<open>Properties of the kline fetcher\<close>

text \<open>
  Claim C4. A call with \<open>0 < startTime < endTime\<close> and \<open>endTime\<close> before the launch
  date settles with the empty list of records, not with an error, and issues no request.
\<close>

theorem fetch_before_launch:
  "0 < startTime \<Longrightarrow> startTime < endTime \<Longrightarrow> endTime < BINANCE_LAUNCH_DATE (tz h) \<Longrightarrow>
   fetchBinanceKlineData h symbol startTime endTime = (Inr [], [])"
  by (simp add: fetchBinanceKlineData_def)

theorem fetch_before_launch_witness:
  "(0::int) < 1483228800000 \<and> (1483228800000::int) < 1485907200000
   \<and> 1485907200000 < BINANCE_LAUNCH_DATE (tz (test_host (Rejected ''offline'')))
   \<and> fetchBinanceKlineData (test_host (Rejected ''offline'')) ''BTCUSDT'' 1483228800000 1485907200000
       = (Inr [], [])"
  using fetch_before_launch [of 1483228800000 1485907200000 "test_host (Rejected ''offline'')" "''BTCUSDT''"]
  by (simp add: BINANCE_LAUNCH_DATE_def test_host_def)

text \<open>What a row that is not discarded has passed, and the record made of it.\<close>

lemma process_kline_Some:
  assumes "process_kline h k = Some r"
  shows "\<exists>cells d. k = Kline cells \<and> 11 \<le> length cells
     \<and> open_price r = cells ! 1 \<and> high r = cells ! 2 \<and> low r = cells ! 3
     \<and> close_price r = cells ! 4 \<and> volume r = cells ! 5
     \<and> \<not> isNaN (cells ! 1) \<and> \<not> isNaN (cells ! 2) \<and> \<not> isNaN (cells ! 3)
     \<and> \<not> isNaN (cells ! 4) \<and> \<not> isNaN (cells ! 5)
     \<and> \<not> jle (cells ! 1) (Fin 0) \<and> \<not> jle (cells ! 2) (Fin 0) \<and> \<not> jle (cells ! 3) (Fin 0)
     \<and> \<not> jle (cells ! 4) (Fin 0)
     \<and> \<not> jlt (cells ! 2) (Math_max (cells ! 1) (cells ! 4))
     \<and> \<not> jgt (cells ! 3) (Math_min (cells ! 1) (cells ! 4))
     \<and> \<not> isNaN (cells ! 0) \<and> \<not> jle (cells ! 0) (Fin 0)
     \<and> Date_new (cells ! 0) = Some d \<and> BINANCE_LAUNCH_DATE (tz h) \<le> d
     \<and> date r = format_date h d
     \<and> volatility r = Math_max (Fin 0) (jmul (jdiv (jsub (cells ! 2) (cells ! 3)) (cells ! 1)) (Fin 100))"
  using assms
  unfolding process_kline_def Let_def
  by (auto split: kline.splits if_splits option.splits simp: jgt_def jle_def)


lemma fetch_records_processed:
  assumes "fetchBinanceKlineData h symbol startTime endTime = (Inr rs, reqs)" "r \<in> set rs"
  shows "\<exists>k. process_kline h k = Some r"
proof -
  from assms(1) have "rs = [] \<or> (\<exists>ks. rs = map the (filter (\<lambda>item. item \<noteq> None) (map (process_kline h) ks)))"
    unfolding fetchBinanceKlineData_def Let_def
    by (auto split: if_splits response.splits body.splits option.splits)
  with assms(2) obtain ks where "r \<in> set (map the (filter (\<lambda>item. item \<noteq> None) (map (process_kline h) ks)))"
    by auto
  then obtain k where "process_kline h k \<noteq> None" "r = the (process_kline h k)" by auto
  then show ?thesis by auto
qed

text \<open>
  The price conditions hold for every record the fetcher returns, and its volatility is
  at least zero unless its open price is \<open>Infinity\<close>.
\<close>

lemma fetch_records_prices:
  assumes "fetchBinanceKlineData h symbol startTime endTime = (Inr rs, reqs)" "r \<in> set rs"
  shows "jgt (open_price r) (Fin 0) \<and> jgt (high r) (Fin 0) \<and> jgt (low r) (Fin 0)
       \<and> jgt (close_price r) (Fin 0)
       \<and> jge (high r) (Math_max (open_price r) (close_price r))
       \<and> jle (low r) (Math_min (open_price r) (close_price r))
       \<and> (open_price r \<noteq> PInf \<longrightarrow> jge (volatility r) (Fin 0))"
proof -
  obtain k where "process_kline h k = Some r"
    using fetch_records_processed [OF assms] by blast
  from process_kline_Some [OF this] obtain cells where
    f: "open_price r = cells ! 1" "high r = cells ! 2" "low r = cells ! 3" "close_price r = cells ! 4"
    and n: "\<not> isNaN (cells ! 1)" "\<not> isNaN (cells ! 2)" "\<not> isNaN (cells ! 3)" "\<not> isNaN (cells ! 4)"
    and p: "\<not> jle (cells ! 1) (Fin 0)" "\<not> jle (cells ! 2) (Fin 0)" "\<not> jle (cells ! 3) (Fin 0)"
       "\<not> jle (cells ! 4) (Fin 0)"
    and q: "\<not> jlt (cells ! 2) (Math_max (cells ! 1) (cells ! 4))"
       "\<not> jgt (cells ! 3) (Math_min (cells ! 1) (cells ! 4))"
    and v: "volatility r = Math_max (Fin 0) (jmul (jdiv (jsub (cells ! 2) (cells ! 3)) (cells ! 1)) (Fin 100))"
    by blast
  show ?thesis
    unfolding f v using n p q
    by (cases "cells ! 1"; cases "cells ! 2"; cases "cells ! 3"; cases "cells ! 4")
       (auto simp: jgt_def jle_def jge_def Math_max_def Math_min_def jsub_def inf_of_sign_def
             split: if_splits)
qed



text \<open>
  Claim C2. Every record returned is to have positive prices, \<open>high \<ge> max(open, close)\<close>,
  \<open>low \<le> min(open, close)\<close> and \<open>volatility \<ge> 0\<close>. The fetcher run on a row whose open
  and high prices are \<open>Infinity\<close> (as \<open>Number.parseFloat\<close> gives for the text
  \<open>Infinity\<close> or \<open>1e999\<close>): the row passes every check and its record has the volatility
  \<open>NaN\<close>, which is not \<open>\<ge> 0\<close>.
\<close>

theorem fetch_infinite_open:
  "fetchBinanceKlineData
     (test_host (Ok (Klines [Kline [Fin 1600000000000, PInf, PInf, Fin 1, Fin 1, Fin 5,
                                    Fin 1600086399999, Fin 5, Fin 1, Fin 0, Fin 0, Fin 0]])))
     ''BTCUSDT'' 1598918400000 1601510399999
   = (Inr [\<lparr>date = ''yyyy-MM-dd'', open_price = PInf, high = PInf, low = Fin 1,
            close_price = Fin 1, volume = Fin 5, volatility = NaN\<rparr>],
      [\<lparr>req_symbol = ''BTCUSDT'', req_interval = ''1d'', req_startTime = 1598918400000,
        req_endTime = 1601510399999, req_limit = 1000\<rparr>])
   \<and> \<not> jge NaN (Fin 0)"
  by (simp add: fetchBinanceKlineData_def test_host_def BINANCE_LAUNCH_DATE_def process_kline_def
        Let_def jle_def jgt_def jge_def Math_max_def Math_min_def jsub_def inf_of_sign_def)




section \<open>Properties of the volatility enhancer\<close>













section \<open>Properties of the pattern analyzer\<close>

text \<open>
  The loop, started at \<open>i\<close> with \<open>inCluster\<close> telling whether record \<open>i - 1\<close> is
  clustered, adds one to the count for every cluster that starts at or after \<open>i\<close>.
\<close>

lemma cluster_loop_count:
  assumes "1 \<le> i" "inCluster = clustered allData (i - 1)"
  shows "fst (cluster_loop allData i (clusterCount, inCluster))
    = clusterCount
      + length (filter (\<lambda>j. clustered allData j \<and> \<not> clustered allData (j - 1)) [i ..< length allData])"
  using assms
proof (induction "length allData - i" arbitrary: i clusterCount inCluster)
  case 0
  then show ?case by (subst cluster_loop.simps) simp
next
  case (Suc k)
  then have i: "i < length allData" by simp
  have c: "clustered allData i
    = (jgt (volatility (allData ! i)) (Fin 2) \<and> jgt (volatility (allData ! (i - 1))) (Fin 2))"
    using i Suc.prems(1) by (simp add: clustered_def)
  have k: "k = length allData - (i + 1)" using Suc.hyps(2) by simp
  have u: "[i ..< length allData] = i # [i + 1 ..< length allData]"
    using i by (simp add: upt_conv_Cons)
  note IH = Suc.hyps(1) [OF k, of "clustered allData i", simplified]
  show ?case
  proof (cases "clustered allData i")
    case True
    then show ?thesis
      using i c IH Suc.prems(2) unfolding u
      by (subst cluster_loop.simps) (simp add: Let_def)
  next
    case False
    then show ?thesis
      using i c IH Suc.prems(2) unfolding u
      by (subst cluster_loop.simps) (auto simp add: Let_def)
  qed
qed

lemma cluster_loop_starts:
  "fst (cluster_loop allData 1 (0, False)) = length (cluster_starts allData)"
  using cluster_loop_count [of 1 False allData 0]
  by (simp add: cluster_starts_def clustered_def)

text \<open>Sorting keeps the patterns, each as often as before.\<close>

lemma mset_insert_pattern: "mset (insert_pattern a bs) = add_mset a (mset bs)"
  by (induction bs) simp_all

lemma mset_sort_patterns: "mset (sort_patterns ps) = mset ps"
  unfolding sort_patterns_def by (induction ps) (simp_all add: mset_insert_pattern)

lemma filter_sort_patterns_single:
  assumes "filter P ps = [p]"
  shows "filter P (sort_patterns ps) = [p]"
proof -
  have "mset (filter P (sort_patterns ps)) = filter_mset P (mset (sort_patterns ps))" by simp
  also have "\<dots> = filter_mset P (mset ps)" by (simp only: mset_sort_patterns)
  also have "\<dots> = mset (filter P ps)" by simp
  also have "\<dots> = {#p#}" by (simp only: assms) simp
  finally show ?thesis by (simp only: mset_single_iff)
qed

lemma filter_sort_patterns_none:
  assumes "filter P ps = []"
  shows "filter P (sort_patterns ps) = []"
proof -
  have "mset (filter P (sort_patterns ps)) = mset (filter P ps)"
    by (simp add: mset_sort_patterns)
  then show ?thesis using assms by simp
qed

text \<open>Only the clustering block makes patterns of type \<open>Volatility\<close>.\<close>

lemma weeklyData_nonempty:
  assumes "allData \<noteq> []"
  shows "weeklyData getDay allData \<noteq> []"
proof (cases "None \<in> set (map (\<lambda>item. getDay (date item)) allData)")
  case True
  then show ?thesis by (simp add: weeklyData_def Let_def)
next
  case False
  obtain x xs where "allData = x # xs" using assms by (cases allData) auto
  with False obtain d where "getDay (date x) = Some d" by (cases "getDay (date x)") auto
  then have "List.map_filter (\<lambda>d. d) (map (\<lambda>item. getDay (date item)) allData) \<noteq> []"
    using \<open>allData = x # xs\<close> by (simp add: List.map_filter_simps)
  then have "sort (remdups (List.map_filter (\<lambda>d. d) (map (\<lambda>item. getDay (date item)) allData))) \<noteq> []"
    by (metis length_0_conv length_sort remdups_eq_nil_iff)
  then show ?thesis by (simp add: weeklyData_def Let_def)
qed

lemma weekly_patterns_type:
  assumes "allData \<noteq> []"
  shows "\<exists>weekly. weekly_patterns getDay allData = Inr weekly
     \<and> filter (\<lambda>p. pattern_type p = Volatility) weekly = []"
proof -
  have "weeklyVolatility getDay allData \<noteq> []"
    using weeklyData_nonempty [OF assms] by (simp add: weeklyVolatility_def)
  then show ?thesis
    by (auto simp: weekly_patterns_def Let_def split: list.splits)
qed

lemma monthly_patterns_type:
  "filter (\<lambda>p. pattern_type p = Volatility) (monthly_patterns getDate allData) = []"
  by (auto simp: monthly_patterns_def monthly_pattern_def Let_def filter_empty_conv)

lemma volume_spikes_type:
  "filter (\<lambda>p. pattern_type p = Volatility) (volume_spikes allData) = []"
  by (simp add: volume_spikes_def Let_def)

lemma price_anomalies_type:
  "filter (\<lambda>p. pattern_type p = Volatility) (price_anomalies allData) = []"
  by (simp add: price_anomalies_def Let_def)

lemma volatility_clustering_type:
  "filter (\<lambda>p. pattern_type p = Volatility) (volatility_clustering allData)
     = volatility_clustering allData"
  by (simp add: volatility_clustering_def Let_def)

lemma patterns_volatility:
  assumes "30 \<le> length (historicalData @ data)"
  shows "\<exists>ps. patterns getDay getDate historicalData data = Inr ps
     \<and> filter (\<lambda>p. pattern_type p = Volatility) ps = volatility_clustering (historicalData @ data)"
proof -
  define allData where "allData = historicalData @ data"
  have ne: "allData \<noteq> []" using assms by (auto simp: allData_def)
  obtain weekly where w: "weekly_patterns getDay allData = Inr weekly"
    "filter (\<lambda>p. pattern_type p = Volatility) weekly = []"
    using weekly_patterns_type [OF ne] by blast
  define all where "all = weekly @ monthly_patterns getDate allData @ volatility_clustering allData
                     @ volume_spikes allData @ price_anomalies allData"
  have p: "patterns getDay getDate historicalData data = Inr (sort_patterns all)"
    using assms w(1) by (simp add: patterns_def Let_def allData_def [symmetric] all_def)
  have f: "filter (\<lambda>p. pattern_type p = Volatility) all = volatility_clustering allData"
    unfolding all_def filter_append
    by (simp only: w(2) monthly_patterns_type volume_spikes_type price_anomalies_type
        volatility_clustering_type append_Nil append_Nil2)
  have "filter (\<lambda>p. pattern_type p = Volatility) (sort_patterns all) = volatility_clustering allData"
  proof (cases "volatility_clustering allData")
    case Nil
    then show ?thesis using f filter_sort_patterns_none by metis
  next
    case (Cons q qs)
    then have "qs = []" by (auto simp: volatility_clustering_def Let_def split: if_splits)
    then show ?thesis using f Cons filter_sort_patterns_single by metis
  qed
  then show ?thesis using p by (simp add: allData_def)
qed

lemma clustering_confidence:
  assumes "0 < n"
  shows "Math_min (Fin 85) (jmul (jdiv (num (int c)) (jdiv (num (int n)) (Fin 10))) (Fin 100))
    = Fin (min 85 (real c / (real n / 10) * 100))"
  using assms by (auto simp: Math_min_def num_def min_def)

text \<open>
  Claim C5. For a combined history of at least 30 records the analyzer returns a list of
  patterns whose patterns of type \<open>Volatility\<close> are: exactly one when the number of
  clusters (maximal runs of records above 2 that follow a record above 2, each run counted
  once) is at least 3, with confidence \<open>min(85, (clusterCount / (totalN / 10)) * 100)\<close>,
  that count as occurrences, the mean volatility of the records above 2 as \<open>avgImpact\<close> and
  severity medium; none otherwise. A shorter history gives no pattern at all.
\<close>

theorem volatility_clustering_spec:
  "let allData = historicalData @ data;
       clusterCount = length (cluster_starts allData);
       high = high_volatility allData
   in (length allData < 30 \<longrightarrow> patterns getDay getDate historicalData data = Inr [])
      \<and> (30 \<le> length allData \<longrightarrow>
           (\<exists>ps. patterns getDay getDate historicalData data = Inr ps
              \<and> filter (\<lambda>p. pattern_type p = Volatility) ps
                  = (if 3 \<le> clusterCount then
                       [\<lparr>pattern_id = ''volatility-clustering'',
                         pattern_type = Volatility,
                         name = ''Volatility Clustering'',
                         description =
                           ''High volatility periods tend to be followed by more high volatility'',
                         confidence = Fin (min 85 (real clusterCount / (real (length allData) / 10) * 100)),
                         occurrences = clusterCount,
                         avgImpact = jdiv (reduce_sum volatility high) (num (int (length high))),
                         severity = Some Medium\<rparr>]
                     else [])))"
proof -
  define allData where "allData = historicalData @ data"
  have a: "length allData < 30 \<Longrightarrow> patterns getDay getDate historicalData data = Inr []"
    by (simp add: patterns_def allData_def)
  have b: "\<exists>ps. patterns getDay getDate historicalData data = Inr ps
              \<and> filter (\<lambda>p. pattern_type p = Volatility) ps
                  = (if 3 \<le> length (cluster_starts allData) then
                       [\<lparr>pattern_id = ''volatility-clustering'',
                         pattern_type = Volatility,
                         name = ''Volatility Clustering'',
                         description =
                           ''High volatility periods tend to be followed by more high volatility'',
                         confidence = Fin (min 85 (real (length (cluster_starts allData))
                                                   / (real (length allData) / 10) * 100)),
                         occurrences = length (cluster_starts allData),
                         avgImpact = jdiv (reduce_sum volatility (high_volatility allData))
                                          (num (int (length (high_volatility allData)))),
                         severity = Some Medium\<rparr>]
                     else [])"
    if h: "30 \<le> length allData"
  proof -
    have n: "0 < length allData" using h by auto
    obtain ps where ps: "patterns getDay getDate historicalData data = Inr ps"
      "filter (\<lambda>p. pattern_type p = Volatility) ps = volatility_clustering allData"
      using patterns_volatility [of historicalData data getDay getDate] h
      unfolding allData_def by blast
    have "volatility_clustering allData
       = (if 3 \<le> length (cluster_starts allData) then
                       [\<lparr>pattern_id = ''volatility-clustering'',
                         pattern_type = Volatility,
                         name = ''Volatility Clustering'',
                         description =
                           ''High volatility periods tend to be followed by more high volatility'',
                         confidence = Fin (min 85 (real (length (cluster_starts allData))
                                                   / (real (length allData) / 10) * 100)),
                         occurrences = length (cluster_starts allData),
                         avgImpact = jdiv (reduce_sum volatility (high_volatility allData))
                                          (num (int (length (high_volatility allData)))),
                         severity = Some Medium\<rparr>]
                     else [])"
      unfolding volatility_clustering_def Let_def cluster_loop_starts
        clustering_confidence [OF n] high_volatility_def ..
    with ps show ?thesis by auto
  qed
  show ?thesis
    unfolding Let_def allData_def [symmetric] using a b by blast
qed

theorem volatility_clustering_spec_witness:
  "30 \<le> length ([] @ W30)
   \<and> (\<exists>ps. patterns (\<lambda>d. Some 2) (\<lambda>d. Some 1) [] W30 = Inr ps
        \<and> filter (\<lambda>p. pattern_type p = Volatility) ps
            = [\<lparr>pattern_id = ''volatility-clustering'',
                pattern_type = Volatility,
                name = ''Volatility Clustering'',
                description = ''High volatility periods tend to be followed by more high volatility'',
                confidence = Fin 85,
                occurrences = 3,
                avgImpact = Fin 3,
                severity = Some Medium\<rparr>])
   \<and> length ([] @ take 29 W30) < 30
   \<and> patterns (\<lambda>d. Some 2) (\<lambda>d. Some 1) [] (take 29 W30) = Inr []"
proof -
  have l: "length W30 = 30" by (simp add: W30_def)
  have s: "cluster_starts W30 = [1, 4, 7]"
    by (simp add: cluster_starts_def clustered_def W30_def day_with_volatility_def jgt_def upt_rec
        nth_append nth_Cons')
  have h: "high_volatility W30 = replicate 6 (day_with_volatility 3)"
    by (simp add: high_volatility_def W30_def day_with_volatility_def jgt_def numeral_eq_Suc)
  have m: "jdiv (reduce_sum volatility (replicate 6 (day_with_volatility 3))) (num 6) = Fin 3"
    by (simp add: reduce_sum_def day_with_volatility_def num_def numeral_eq_Suc)
  have sl: "length (cluster_starts W30) = 3" by (simp add: s)
  show ?thesis
    using volatility_clustering_spec [of "[]" W30 "\<lambda>d. Some 2" "\<lambda>d. Some 1"]
      volatility_clustering_spec [of "[]" "take 29 W30" "\<lambda>d. Some 2" "\<lambda>d. Some 1"]
    by (simp add: Let_def l sl h m)
qed

text \<open>A sum of numbers that are neither \<open>NaN\<close> nor \<open>-Infinity\<close> is neither.\<close>

lemma jadd_not_NaN:
  assumes "a \<noteq> NaN" "a \<noteq> NInf" "b \<noteq> NaN" "b \<noteq> NInf"
  shows "jadd a b \<noteq> NaN \<and> jadd a b \<noteq> NInf"
  using assms by (cases a; cases b) simp_all

lemma fold_jadd_not_NaN:
  assumes "\<forall>x \<in> set xs. f x \<noteq> NaN \<and> f x \<noteq> NInf" "a \<noteq> NaN" "a \<noteq> NInf"
  shows "fold (\<lambda>x sum. jadd sum (f x)) xs a \<noteq> NaN \<and> fold (\<lambda>x sum. jadd sum (f x)) xs a \<noteq> NInf"
  using assms by (induction xs arbitrary: a) (simp_all add: jadd_not_NaN)

lemma jgt_two_cases: "jgt v (Fin 2) \<Longrightarrow> v \<noteq> NaN \<and> v \<noteq> NInf"
  by (cases v) (simp_all add: jgt_def)

text \<open>
  Claim C10. When the cluster count reaches 3 some record has a volatility above 2, so
  the count \<open>avgImpact\<close> is divided by is not zero; and the \<open>avgImpact\<close> of an emitted
  clustering pattern is not \<open>NaN\<close>.
\<close>

theorem clustering_avgImpact_defined:
  "(3 \<le> fst (cluster_loop allData 1 (0, False)) \<longrightarrow>
      length (filter (\<lambda>item. jgt (volatility item) (Fin 2)) allData) \<noteq> 0)
   \<and> (\<forall>p \<in> set (volatility_clustering allData). \<not> isNaN (avgImpact p))"
proof -
  define high where "high = filter (\<lambda>item. jgt (volatility item) (Fin 2)) allData"
  have ne: "high \<noteq> []" if "3 \<le> fst (cluster_loop allData 1 (0, False))"
  proof -
    from that have "cluster_starts allData \<noteq> []"
      unfolding cluster_loop_starts by auto
    then obtain i where "i \<in> set (cluster_starts allData)"
      by (cases "cluster_starts allData") auto
    then have "clustered allData i" by (simp add: cluster_starts_def)
    then have "i < length allData" "jgt (volatility (allData ! i)) (Fin 2)"
      by (simp_all add: clustered_def)
    then have "allData ! i \<in> set high" by (simp add: high_def)
    then show ?thesis by auto
  qed
  have s: "reduce_sum volatility high \<noteq> NaN \<and> reduce_sum volatility high \<noteq> NInf"
    unfolding reduce_sum_def
    by (rule fold_jadd_not_NaN) (auto simp: high_def jgt_two_cases)
  have d: "\<not> isNaN (jdiv (reduce_sum volatility high) (num (int (length high))))" if "high \<noteq> []"
    using s that by (cases "reduce_sum volatility high") (simp_all add: num_def)
  show ?thesis
    using ne d by (auto simp: volatility_clustering_def Let_def high_def [symmetric])
qed

theorem clustering_avgImpact_defined_witness:
  "3 \<le> fst (cluster_loop W30 1 (0, False))
   \<and> length (filter (\<lambda>item. jgt (volatility item) (Fin 2)) W30) = 6
   \<and> volatility_clustering W30 \<noteq> []
   \<and> \<not> isNaN (avgImpact (hd (volatility_clustering W30)))"
proof -
  have s: "cluster_starts W30 = [1, 4, 7]"
    by (simp add: cluster_starts_def clustered_def W30_def day_with_volatility_def jgt_def upt_rec
        nth_append nth_Cons')
  have c: "fst (cluster_loop W30 1 (0, False)) = 3"
    unfolding cluster_loop_starts s by simp
  have h: "filter (\<lambda>item. jgt (volatility item) (Fin 2)) W30 = replicate 6 (day_with_volatility 3)"
    by (simp add: W30_def day_with_volatility_def jgt_def numeral_eq_Suc)
  have c': "fst (cluster_loop W30 (Suc 0) (0, False)) = 3" using c by simp
  have v: "volatility_clustering W30 \<noteq> []"
    by (simp add: volatility_clustering_def Let_def c')
  then have "hd (volatility_clustering W30) \<in> set (volatility_clustering W30)" by simp
  then show ?thesis
    using clustering_avgImpact_defined [of W30] c' h v by simp
qed

section \<open>Properties of the alert system\<close>

text \<open>An alert that is triggered is returned as it is, with no notification.\<close>

lemma check_alert_triggered:
  "triggered alert \<Longrightarrow> check_alert granted now symbol latest alert = (alert, None)"
  by (simp add: check_alert_def Let_def)

lemma should_trigger_condition_holds:
  "((condition alert = Above \<and> jgt (alert_metric latest alert) (threshold alert))
     \<or> (condition alert = Below \<and> jlt (alert_metric latest alert) (threshold alert)))
   = condition_holds latest alert"
  by (cases "condition alert") (simp_all add: condition_holds_def)

text \<open>The callback in one case distinction.\<close>

lemma check_alert_eq:
  "check_alert granted now symbol latest alert =
    (if enabled alert \<and> condition_holds latest alert \<and> \<not> triggered alert then
       (alert\<lparr>triggered := True, lastTriggered := Some now\<rparr>,
        if granted then
          Some \<lparr>title = ''Market Alert - '' @ symbol,
                body = [Str (type_text (alert_type alert)), Str '' is '',
                        Str (condition_text (condition alert)), Str '' '',
                        Num (threshold alert),
                        Str (if alert_type alert = AVolume then ''M'' else ''%'')],
                icon = ''/favicon.ico''\<rparr>
        else None)
     else (alert, None))"
  unfolding check_alert_def Let_def alert_metric_def [symmetric]
    should_trigger_condition_holds
  by simp

lemma length_alerts_effect [simp]:
  "length (alerts_effect granted now symbol data alerts) = length alerts"
  by (simp add: alerts_effect_def Let_def)

lemma alerts_effect_nth:
  assumes "i < length alerts"
  shows "alerts_effect granted now symbol data alerts ! i
    = (if length data = 0 then (alerts ! i, None)
       else check_alert granted now symbol (last data) (alerts ! i))"
  using assms by (simp add: alerts_effect_def Let_def)

lemma alerts_effect_triggered:
  assumes "i < length alerts" "triggered (alerts ! i)"
  shows "alerts_effect granted now symbol data alerts ! i = (alerts ! i, None)"
  using assms by (simp add: alerts_effect_nth check_alert_triggered)

lemma alerts_effect_cases:
  assumes "i < length alerts"
  shows "alerts_effect granted now symbol data alerts ! i = (alerts ! i, None)
     \<or> triggered (fst (alerts_effect granted now symbol data alerts ! i))"
  using assms by (simp add: alerts_effect_nth check_alert_eq)

lemma evaluations_Cons:
  "evaluations ((granted, now, symbol, data) # rest) alerts =
    (fst (evaluations rest (map fst (alerts_effect granted now symbol data alerts))),
     map snd (alerts_effect granted now symbol data alerts)
       # snd (evaluations rest (map fst (alerts_effect granted now symbol data alerts))))"
  by (simp add: Let_def split: prod.splits)

lemma notified_Cons:
  "notified i (ns # rest) = (if ns ! i \<noteq> None then 1 else 0) + notified i rest"
  by (simp add: notified_def)

text \<open>Through a run of evaluations a triggered alert stays as it is and is never notified.\<close>

lemma evaluations_triggered:
  assumes "i < length alerts" "triggered (alerts ! i)"
  shows "notified i (snd (evaluations evs alerts)) = 0
     \<and> fst (evaluations evs alerts) ! i = alerts ! i"
  using assms
proof (induction evs arbitrary: alerts)
  case Nil
  then show ?case by (simp add: notified_def)
next
  case (Cons ev evs)
  obtain granted now symbol data where ev: "ev = (granted, now, symbol, data)"
    by (cases ev) auto
  define result where "result = alerts_effect granted now symbol data alerts"
  have r: "result ! i = (alerts ! i, None)"
    unfolding result_def using Cons.prems by (rule alerts_effect_triggered)
  have l: "i < length (map fst result)" using Cons.prems(1) by (simp add: result_def)
  have t: "map fst result ! i = alerts ! i" "map snd result ! i = None"
    using Cons.prems(1) r by (simp_all add: result_def)
  have "triggered (map fst result ! i)" using t Cons.prems(2) by simp
  from Cons.IH [OF l this] t show ?case
    unfolding ev evaluations_Cons result_def [symmetric] by (simp add: notified_Cons)
qed

lemma evaluations_once:
  assumes "i < length alerts"
  shows "notified i (snd (evaluations evs alerts)) \<le> 1"
  using assms
proof (induction evs arbitrary: alerts)
  case Nil
  then show ?case by (simp add: notified_def)
next
  case (Cons ev evs)
  obtain granted now symbol data where ev: "ev = (granted, now, symbol, data)"
    by (cases ev) auto
  define result where "result = alerts_effect granted now symbol data alerts"
  have l: "i < length (map fst result)" using Cons.prems(1) by (simp add: result_def)
  have n: "notified i (snd (evaluations (ev # evs) alerts))
     = (if map snd result ! i \<noteq> None then 1 else 0)
       + notified i (snd (evaluations evs (map fst result)))"
    unfolding ev evaluations_Cons result_def [symmetric] by (simp add: notified_Cons)
  consider "result ! i = (alerts ! i, None)" | "triggered (fst (result ! i))"
    using alerts_effect_cases [OF Cons.prems(1)] unfolding result_def by blast
  then show ?case
  proof cases
    case 1
    then have "map snd result ! i = None" using Cons.prems(1) by (simp add: result_def)
    with n Cons.IH [OF l] show ?thesis by simp
  next
    case 2
    then have "triggered (map fst result ! i)" using Cons.prems(1) by (simp add: result_def)
    from evaluations_triggered [OF l this] n show ?thesis by simp
  qed
qed

lemma toggleAlert_clears:
  assumes "x \<in> set (toggleAlert k alerts)" "alert_id x = k"
  shows "\<not> triggered x"
proof -
  from assms(1) have "x \<in> (\<lambda>alert. if alert_id alert = k
      then alert\<lparr>enabled := \<not> enabled alert, triggered := False\<rparr> else alert) ` set alerts"
    unfolding toggleAlert_def set_map .
  then obtain a where
    a: "x = (if alert_id a = k then a\<lparr>enabled := \<not> enabled a, triggered := False\<rparr> else a)"
    by (rule imageE)
  show ?thesis
  proof (cases "alert_id a = k")
    case True
    with a show ?thesis by simp
  next
    case False
    with a assms(2) show ?thesis by simp
  qed
qed

lemma resetAlert_clears:
  assumes "x \<in> set (resetAlert k alerts)" "alert_id x = k"
  shows "\<not> triggered x"
proof -
  from assms(1) have "x \<in> (\<lambda>alert. if alert_id alert = k
      then alert\<lparr>triggered := False\<rparr> else alert) ` set alerts"
    unfolding resetAlert_def set_map .
  then obtain a where
    a: "x = (if alert_id a = k then a\<lparr>triggered := False\<rparr> else a)"
    by (rule imageE)
  show ?thesis
  proof (cases "alert_id a = k")
    case True
    with a show ?thesis by simp
  next
    case False
    with a assms(2) show ?thesis by simp
  qed
qed

text \<open>
  Claim C6. An enabled alert that is not triggered and whose metric satisfies its
  condition comes out of an evaluation triggered, with the time recorded, and with a
  notification when the page may notify; an alert that is triggered is returned unchanged
  with no notification. So over any run of evaluations the alert at a place is notified at
  most once, and never when it was triggered before the run. \<open>toggleAlert\<close> and
  \<open>resetAlert\<close> leave the alert they address not triggered.
\<close>

theorem alert_fires_once:
  "(enabled alert \<and> \<not> triggered alert \<and> condition_holds latest alert \<longrightarrow>
      triggered (fst (check_alert granted now symbol latest alert))
      \<and> lastTriggered (fst (check_alert granted now symbol latest alert)) = Some now
      \<and> (snd (check_alert granted now symbol latest alert) \<noteq> None) = granted)
   \<and> (triggered alert \<longrightarrow> check_alert granted now symbol latest alert = (alert, None))
   \<and> (i < length alerts \<longrightarrow> notified i (snd (evaluations evs alerts)) \<le> 1)
   \<and> (i < length alerts \<and> triggered (alerts ! i) \<longrightarrow>
        notified i (snd (evaluations evs alerts)) = 0
        \<and> fst (evaluations evs alerts) ! i = alerts ! i)
   \<and> (\<forall>x \<in> set (toggleAlert k alerts). alert_id x = k \<longrightarrow> \<not> triggered x)
   \<and> (\<forall>x \<in> set (resetAlert k alerts). alert_id x = k \<longrightarrow> \<not> triggered x)"
proof -
  have a: "enabled alert \<and> \<not> triggered alert \<and> condition_holds latest alert \<longrightarrow>
      triggered (fst (check_alert granted now symbol latest alert))
      \<and> lastTriggered (fst (check_alert granted now symbol latest alert)) = Some now
      \<and> (snd (check_alert granted now symbol latest alert) \<noteq> None) = granted"
    by (simp add: check_alert_eq)
  have b: "triggered alert \<longrightarrow> check_alert granted now symbol latest alert = (alert, None)"
    by (simp add: check_alert_triggered)
  have c: "i < length alerts \<longrightarrow> notified i (snd (evaluations evs alerts)) \<le> 1"
    using evaluations_once [of i alerts evs] by simp
  have d: "i < length alerts \<and> triggered (alerts ! i) \<longrightarrow>
        notified i (snd (evaluations evs alerts)) = 0
        \<and> fst (evaluations evs alerts) ! i = alerts ! i"
    using evaluations_triggered [of i alerts evs] by simp
  have e: "\<forall>x \<in> set (toggleAlert k alerts). alert_id x = k \<longrightarrow> \<not> triggered x"
    by (auto dest: toggleAlert_clears)
  have f: "\<forall>x \<in> set (resetAlert k alerts). alert_id x = k \<longrightarrow> \<not> triggered x"
    by (auto dest: resetAlert_clears)
  from a b c d e f show ?thesis by (intro conjI)
qed

theorem alert_fires_once_witness:
  "enabled alert1 \<and> \<not> triggered alert1 \<and> condition_holds (day_with_volatility (5 / 2)) alert1
   \<and> check_alert True 1600000000000 ''BTCUSDT'' (day_with_volatility (5 / 2)) alert1
       = (alert1\<lparr>triggered := True, lastTriggered := Some 1600000000000\<rparr>,
          Some \<lparr>title = ''Market Alert - BTCUSDT'',
                body = [Str ''volatility'', Str '' is '', Str ''above'', Str '' '', Num (Fin 2), Str ''%''],
                icon = ''/favicon.ico''\<rparr>)
   \<and> (0::nat) < length [alert1]
   \<and> fst (evaluations [(True, 1600000000000, ''BTCUSDT'', [day_with_volatility (5 / 2)]),
                         (True, 1600086400000, ''BTCUSDT'', [day_with_volatility 3])] [alert1])
       = [alert1\<lparr>triggered := True, lastTriggered := Some 1600000000000\<rparr>]
   \<and> notified 0 (snd (evaluations [(True, 1600000000000, ''BTCUSDT'', [day_with_volatility (5 / 2)]),
                                    (True, 1600086400000, ''BTCUSDT'', [day_with_volatility 3])] [alert1]))
       = 1
   \<and> triggered ([alert1\<lparr>triggered := True\<rparr>] ! 0)
   \<and> notified 0 (snd (evaluations [(True, 1600086400000, ''BTCUSDT'', [day_with_volatility 3])]
                          [alert1\<lparr>triggered := True\<rparr>])) = 0
   \<and> toggleAlert ''1600000000000'' [alert1\<lparr>triggered := True\<rparr>] = [alert1\<lparr>enabled := False\<rparr>]
   \<and> resetAlert ''1600000000000'' [alert1\<lparr>triggered := True\<rparr>] = [alert1]"
proof -
  let ?evs = "[(True, 1600000000000, ''BTCUSDT'', [day_with_volatility (5 / 2)]),
               (True, 1600086400000, ''BTCUSDT'', [day_with_volatility 3])]"
  have c: "condition_holds (day_with_volatility (5 / 2)) alert1"
    by (simp add: condition_holds_def alert_metric_def alert1_def day_with_volatility_def jgt_def)
  have k: "check_alert True 1600000000000 ''BTCUSDT'' (day_with_volatility (5 / 2)) alert1
       = (alert1\<lparr>triggered := True, lastTriggered := Some 1600000000000\<rparr>,
          Some \<lparr>title = ''Market Alert - BTCUSDT'',
                body = [Str ''volatility'', Str '' is '', Str ''above'', Str '' '', Num (Fin 2), Str ''%''],
                icon = ''/favicon.ico''\<rparr>)"
    by (simp add: check_alert_def Let_def alert1_def day_with_volatility_def jgt_def type_text_def
        condition_text_def)
  have k2: "check_alert True 1600086400000 ''BTCUSDT'' (day_with_volatility 3)
              (alert1\<lparr>triggered := True, lastTriggered := Some 1600000000000\<rparr>)
       = (alert1\<lparr>triggered := True, lastTriggered := Some 1600000000000\<rparr>, None)"
    by (simp add: check_alert_def Let_def alert1_def)
  have e: "evaluations ?evs [alert1]
     = ([alert1\<lparr>triggered := True, lastTriggered := Some 1600000000000\<rparr>],
        [[Some \<lparr>title = ''Market Alert - BTCUSDT'',
                body = [Str ''volatility'', Str '' is '', Str ''above'', Str '' '', Num (Fin 2), Str ''%''],
                icon = ''/favicon.ico''\<rparr>], [None]])"
    by (simp add: alerts_effect_def Let_def k k2)
  have n: "notified 0 (snd (evaluations ?evs [alert1])) = 1"
    unfolding e by (simp add: notified_def)
  have t: "toggleAlert ''1600000000000'' [alert1\<lparr>triggered := True\<rparr>] = [alert1\<lparr>enabled := False\<rparr>]"
    "resetAlert ''1600000000000'' [alert1\<lparr>triggered := True\<rparr>] = [alert1]"
    by (simp_all add: toggleAlert_def resetAlert_def alert1_def)
  have a: "enabled alert1" "\<not> triggered alert1" by (simp_all add: alert1_def)
  note w1 = alert_fires_once [of alert1 "day_with_volatility (5 / 2)" True 1600000000000 "''BTCUSDT''"
      0 "[alert1]" ?evs "''1600000000000''"]
  note w2 = alert_fires_once [of "alert1\<lparr>triggered := True\<rparr>" "day_with_volatility 3" True
      1600086400000 "''BTCUSDT''" 0 "[alert1\<lparr>triggered := True\<rparr>]"
      "[(True, 1600086400000, ''BTCUSDT'', [day_with_volatility 3])]" "''1600000000000''"]
  from w2 have z: "notified 0 (snd (evaluations [(True, 1600086400000, ''BTCUSDT'', [day_with_volatility 3])]
                          [alert1\<lparr>triggered := True\<rparr>])) = 0"
    by simp
  from w1 a c have "notified 0 (snd (evaluations ?evs [alert1])) \<le> 1" by simp
  with a c k e n t z show ?thesis by simp
qed

section \<open>Properties of the weekly view\<close>



lemma jadd_zero_right [simp]: "jadd a (Fin 0) = a"
  by (cases a) simp_all

lemma jadd_zero_left [simp]: "jadd (Fin 0) a = a"
  by (cases a) simp_all


lemma reduce_sum_Nil [simp]: "reduce_sum f [] = Fin 0"
  by (simp add: reduce_sum_def)























section \<open>Properties of the hook\<close>

text \<open>A call of the fetcher issues at most one request, and \<open>fetchData\<close> calls it at most once.\<close>

lemma fetchBinanceKlineData_issued:
  "length (snd (fetchBinanceKlineData h symbol startTime endTime)) \<le> 1"
  by (simp add: fetchBinanceKlineData_def Let_def)

lemma fetchData_issued:
  "snd (fetchData h symbol month) = []
   \<or> snd (fetchData h symbol month)
       = snd (fetchBinanceKlineData h symbol
                (max (subDays h (startOfMonth h month) 30) (BINANCE_LAUNCH_DATE (tz h)))
                (endOfMonth h month))"
  unfolding fetchData_def Let_def
  by (auto simp: max_def split: prod.splits sum.splits error.splits)

text \<open>
  Claim C8, as stated: a symbol that does not match \<open>[A-Z]{2,10}USDT?\<close> fails before any
  request. \<open>BTCEUR\<close> does not match, and \<open>fetchData\<close> issues the request for it.
\<close>

theorem fetchData_unmatched_symbol:
  "\<not> validateTradingSymbol ''BTCEUR''
   \<and> snd (fetchData (test_host (Ok (Klines []))) ''BTCEUR'' 1598918400000)
       = [\<lparr>req_symbol = ''BTCEUR'', req_interval = ''1d'', req_startTime = 1596326400000,
           req_endTime = 1601510400000, req_limit = 1000\<rparr>]"
  by (simp add: validateTradingSymbol_def fetchData_def fetchBinanceKlineData_def test_host_def
      BINANCE_LAUNCH_DATE_def Let_def)

text \<open>
  Claim C8, amended. A symbol of fewer than six characters, or a range of more than 1000
  days, ends \<open>fetchData\<close> with an error message in the state, no data and no request
  issued; when the month is not before the launch date and the start is before the end,
  the message is the one of the symbol check, or of the range check for a symbol of six or
  more characters. No call issues more than one request.
\<close>

theorem fetchData_input_errors:
  "(length symbol < 6
      \<or> 1000 < differenceInDays h (endOfMonth h month)
                  (max (subDays h (startOfMonth h month) 30) (BINANCE_LAUNCH_DATE (tz h)))
    \<longrightarrow> snd (fetchData h symbol month) = []
        \<and> error_out (fst (fetchData h symbol month)) \<noteq> None
        \<and> data_out (fst (fetchData h symbol month)) = [])
   \<and> (BINANCE_LAUNCH_DATE (tz h) \<le> month
        \<and> max (subDays h (startOfMonth h month) 30) (BINANCE_LAUNCH_DATE (tz h)) < endOfMonth h month
      \<longrightarrow> (length symbol < 6 \<longrightarrow>
             fetchData h symbol month = (failed ''Invalid trading symbol format'', []))
          \<and> (6 \<le> length symbol
               \<and> 1000 < differenceInDays h (endOfMonth h month)
                          (max (subDays h (startOfMonth h month) 30) (BINANCE_LAUNCH_DATE (tz h)))
             \<longrightarrow> fetchData h symbol month
                  = (failed ''Date range too large. Please select a more recent period.'', [])))
   \<and> length (snd (fetchData h symbol month)) \<le> 1"
proof (intro conjI impI)
  assume a: "length symbol < 6
      \<or> 1000 < differenceInDays h (endOfMonth h month)
                  (max (subDays h (startOfMonth h month) 30) (BINANCE_LAUNCH_DATE (tz h)))"
  then have "fst (fetchData h symbol month) \<in> range failed \<and> snd (fetchData h symbol month) = []"
    unfolding fetchData_def Let_def by (auto simp: max_def)
  then show "snd (fetchData h symbol month) = []"
    "error_out (fst (fetchData h symbol month)) \<noteq> None"
    "data_out (fst (fetchData h symbol month)) = []"
    by (auto simp: failed_def)
next
  assume "BINANCE_LAUNCH_DATE (tz h) \<le> month
        \<and> max (subDays h (startOfMonth h month) 30) (BINANCE_LAUNCH_DATE (tz h)) < endOfMonth h month"
    and "length symbol < 6"
  then show "fetchData h symbol month = (failed ''Invalid trading symbol format'', [])"
    unfolding fetchData_def Let_def by (auto simp: max_def)
next
  assume "BINANCE_LAUNCH_DATE (tz h) \<le> month
        \<and> max (subDays h (startOfMonth h month) 30) (BINANCE_LAUNCH_DATE (tz h)) < endOfMonth h month"
    and "6 \<le> length symbol
               \<and> 1000 < differenceInDays h (endOfMonth h month)
                          (max (subDays h (startOfMonth h month) 30) (BINANCE_LAUNCH_DATE (tz h)))"
  then show "fetchData h symbol month
                  = (failed ''Date range too large. Please select a more recent period.'', [])"
    unfolding fetchData_def Let_def by (auto simp: max_def)
next
  show "length (snd (fetchData h symbol month)) \<le> 1"
    using fetchData_issued [of h symbol month]
      fetchBinanceKlineData_issued [of h symbol
        "max (subDays h (startOfMonth h month) 30) (BINANCE_LAUNCH_DATE (tz h))" "endOfMonth h month"]
    by auto
qed

theorem fetchData_input_errors_witness:
  "length ''BTC'' < 6
   \<and> BINANCE_LAUNCH_DATE (tz (test_host (Ok (Klines [])))) \<le> 1598918400000
   \<and> fetchData (test_host (Ok (Klines []))) ''BTC'' 1598918400000
       = (failed ''Invalid trading symbol format'', [])
   \<and> 6 \<le> length ''BTCUSDT''
   \<and> 1000 < differenceInDays ((test_host (Ok (Klines [])))\<lparr>endOfMonth := \<lambda>d. d + 2000 * 86400000\<rparr>)
               (1598918400000 + 2000 * 86400000) (1598918400000 - 30 * 86400000)
   \<and> fetchData ((test_host (Ok (Klines [])))\<lparr>endOfMonth := \<lambda>d. d + 2000 * 86400000\<rparr>)
        ''BTCUSDT'' 1598918400000
       = (failed ''Date range too large. Please select a more recent period.'', [])"
  using fetchData_input_errors [of "''BTC''" "test_host (Ok (Klines []))" 1598918400000]
    fetchData_input_errors [of "''BTCUSDT''"
      "(test_host (Ok (Klines [])))\<lparr>endOfMonth := \<lambda>d. d + 2000 * 86400000\<rparr>" 1598918400000]
  by (simp add: test_host_def BINANCE_LAUNCH_DATE_def)

end
